theory Spec2Isabelle
  imports Complex_Main
begin

section \<open>Values, errors and the random source\<close>

text \<open>
  The generator is Python. Its integers (pitches, velocities, bar counts, the tempo) are
  unbounded and modelled as \<open>int\<close>. An exception is a value: every function that can raise
  returns \<open>py_error + 'a\<close>.
\<close>

datatype py_error = KeyError | IndexError | ZeroDivisionError

text \<open>
  The times are Python floats. A float is a rational number here, and an arithmetic
  operation on floats is the exact operation followed by a rounding \<open>fl\<close>, which every
  function that computes with floats takes as its first argument: \<open>a + b\<close> is
  \<open>fl (a + b)\<close>, the literal \<open>0.4\<close> is \<open>fl (4 / 10)\<close>, the true division of two integers
  is \<open>fl\<close> of their quotient. The integers that meet a float in the code (a step index,
  the length of a list, 2, 4, 16, 60, a bar count) are converted exactly, as they are below
  \<open>2\<^sup>5\<^sup>3\<close>. Comparisons are exact. The definitions assume nothing of \<open>fl\<close>; a statement
  that needs a property of the rounding names it.

  \<open>round_binary64\<close> is the rounding of CPython's \<open>float\<close>: IEEE 754 binary64, to the
  nearest value, ties to the even significand. \<open>binary_scale\<close> scales a positive number into
  \<open>[2\<^sup>5\<^sup>2, 2\<^sup>5\<^sup>3)\<close>, at most 1074 times, so that below \<open>2\<^sup>-\<^sup>1\<^sup>0\<^sup>2\<^sup>2\<close> the
  spacing stays \<open>2\<^sup>-\<^sup>1\<^sup>0\<^sup>7\<^sup>4\<close> (the subnormal numbers). There is no infinity: a result of
  \<open>2\<^sup>1\<^sup>0\<^sup>2\<^sup>4\<close> or more, where Python overflows, is outside the model.
\<close>

type_synonym rounding = "rat \<Rightarrow> rat"






text \<open>
  The code draws from Python's module-level \<open>random\<close>. Here the source of randomness
  is an explicit stream \<open>r\<close> of raw draws, read at a position \<open>p\<close> that every call advances
  by one: \<open>random.random()\<close> is a multiple of \<open>2\<^sup>-\<^sup>5\<^sup>3\<close> in \<open>[0, 1)\<close>,
  \<open>random.uniform(a, b)\<close> is \<open>a + (b - a) * random()\<close> in floats, \<open>random.randint(a, b)\<close> is
  \<open>a\<close> plus a value below \<open>b - a + 1\<close>, and \<open>random.choice(seq)\<close> indexes \<open>seq\<close> with a
  value below its length (IndexError on an empty sequence).
\<close>

type_synonym rng = "nat \<Rightarrow> nat"

definition random_unit :: "rng \<Rightarrow> nat \<Rightarrow> rat" where
  "random_unit r p = of_nat (r p mod 2 ^ 53) / 2 ^ 53"

definition random_uniform :: "rounding \<Rightarrow> rng \<Rightarrow> nat \<Rightarrow> rat \<Rightarrow> rat \<Rightarrow> rat" where
  "random_uniform fl r p a b = fl (a + fl (fl (b - a) * random_unit r p))"

definition random_randint :: "rng \<Rightarrow> nat \<Rightarrow> int \<Rightarrow> int \<Rightarrow> int" where
  "random_randint r p a b = a + int (r p mod nat (b - a + 1))"

definition random_choice :: "rng \<Rightarrow> nat \<Rightarrow> 'a list \<Rightarrow> py_error + 'a" where
  "random_choice r p xs =
     (if xs = [] then Inl IndexError else Inr (xs ! (r p mod length xs)))"

text \<open>
  A \<open>pretty_midi.Note\<close> (its field \<open>end\<close> is \<open>finish\<close> here) and a
  \<open>pretty_midi.Instrument\<close>.
\<close>

record midi_note =
  velocity :: int
  pitch :: int
  start :: rat
  finish :: rat

record instrument =
  program :: int
  is_drum :: bool
  inst_notes :: "midi_note list"

text \<open>Python's \<open>s.startswith(p)\<close>, \<open>xs[:n]\<close> for any integer \<open>n\<close>, and \<open>d[k]\<close>.\<close>

definition startswith :: "string \<Rightarrow> string \<Rightarrow> bool" where
  "startswith s p = (take (length p) s = p)"

definition py_take :: "int \<Rightarrow> 'a list \<Rightarrow> 'a list" where
  "py_take n xs = (if 0 \<le> n then take (nat n) xs else take (nat (int (length xs) + n)) xs)"

definition dict_get :: "('k \<times> 'v) list \<Rightarrow> 'k \<Rightarrow> py_error + 'v" where
  "dict_get d k = (case map_of d k of None \<Rightarrow> Inl KeyError | Some v \<Rightarrow> Inr v)"

definition list_get :: "'a list \<Rightarrow> nat \<Rightarrow> py_error + 'a" where
  "list_get xs i = (if i < length xs then Inr (xs ! i) else Inl IndexError)"

section \<open>Scales and chord symbols\<close>

text \<open>
  \<open>_get_scale_degrees\<close> is the same in \<open>JazzChords\<close> and \<open>JazzPiano\<close> (tonic C = 60) and
  in \<open>SmoothBass\<close> (tonic C = 36); the tonic of C is the parameter \<open>base\<close>.
\<close>

definition key_roots :: "int \<Rightarrow> (string \<times> int) list" where
  "key_roots base =
     [(''C'', base), (''Db'', base + 1), (''D'', base + 2), (''Eb'', base + 3),
      (''E'', base + 4), (''F'', base + 5), (''Gb'', base + 6), (''G'', base + 7),
      (''Ab'', base + 8), (''A'', base + 9), (''Bb'', base + 10), (''B'', base + 11),
      (''Dm'', base + 2), (''Em'', base + 4), (''Am'', base + 9), (''Fm'', base + 5),
      (''Gm'', base + 7), (''Cm'', base)]"

definition get_scale_degrees :: "int \<Rightarrow> string \<Rightarrow> int list" where
  "get_scale_degrees base key =
     (let root = (case map_of (key_roots base) key of None \<Rightarrow> base | Some v \<Rightarrow> v);
          intervals = (if CHR ''m'' \<notin> set key then [0, 2, 4, 5, 7, 9, 11]
                       else [0, 2, 3, 5, 7, 8, 10])
      in map (\<lambda>interval. root + interval) intervals)"

definition degree_map :: "(string \<times> nat) list" where
  "degree_map =
     [(''I'', 0), (''ii'', 1), (''iii'', 2), (''IV'', 3), (''V'', 4), (''vi'', 5), (''vii'', 6),
      (''i'', 0), (''ii'', 1), (''III'', 2), (''iv'', 3), (''v'', 4), (''VI'', 5), (''VII'', 6)]"

text \<open>
  The "Extract root and quality" block of \<open>JazzPiano._get_chord_voicing\<close>: the test names the
  four lowercase numerals, both branches of the test slice a fixed width.
\<close>

definition piano_root_quality :: "string \<Rightarrow> py_error + (nat \<times> string)" where
  "piano_root_quality chord_symbol =
     (if startswith chord_symbol ''ii'' \<or> startswith chord_symbol ''iii''
         \<or> startswith chord_symbol ''vi'' \<or> startswith chord_symbol ''vii''
      then (case dict_get degree_map (take 2 chord_symbol) of
              Inl e \<Rightarrow> Inl e
            | Inr root_degree \<Rightarrow> Inr (root_degree, drop 2 chord_symbol))
      else (case list_get chord_symbol 0 of
              Inl e \<Rightarrow> Inl e
            | Inr c \<Rightarrow>
               (case dict_get degree_map [c] of
                  Inl e \<Rightarrow> Inl e
                | Inr root_degree \<Rightarrow> Inr (root_degree, drop 1 chord_symbol))))"

text \<open>The same block of \<open>JazzChords._chord_to_notes\<close>, which has a third branch.\<close>

definition chords_root_quality :: "string \<Rightarrow> py_error + (nat \<times> string)" where
  "chords_root_quality chord_symbol =
     (if startswith chord_symbol ''ii'' \<or> startswith chord_symbol ''iii''
         \<or> startswith chord_symbol ''vi'' \<or> startswith chord_symbol ''vii''
      then (case dict_get degree_map (take 2 chord_symbol) of
              Inl e \<Rightarrow> Inl e
            | Inr root_degree \<Rightarrow> Inr (root_degree, drop 2 chord_symbol))
      else if startswith chord_symbol ''I'' \<or> startswith chord_symbol ''V''
      then (case list_get chord_symbol 0 of
              Inl e \<Rightarrow> Inl e
            | Inr c \<Rightarrow>
               (case dict_get degree_map [c] of
                  Inl e \<Rightarrow> Inl e
                | Inr root_degree \<Rightarrow> Inr (root_degree, drop 1 chord_symbol)))
      else (case dict_get degree_map (take 2 chord_symbol) of
              Inl e \<Rightarrow> Inl e
            | Inr root_degree \<Rightarrow> Inr (root_degree, drop 2 chord_symbol)))"

text \<open>\<open>JazzPiano._get_chord_voicing\<close>; \<open>scale_degrees\<close> is the instance's field.\<close>

definition piano_intervals :: "string \<Rightarrow> string \<Rightarrow> int list" where
  "piano_intervals voicing_type quality =
     (if voicing_type = ''rootless'' then
        (if quality = ''maj7'' then [4, 7, 11, 14]
         else if quality = ''7'' then [4, 9, 10, 14]
         else if quality = ''m7'' then [3, 7, 10, 14]
         else [4, 7, 11])
      else
        (if quality = ''maj7'' then [0, 4, 7, 11]
         else if quality = ''7'' then [0, 4, 7, 10]
         else if quality = ''m7'' then [0, 3, 7, 10]
         else [0, 4, 7]))"

definition get_chord_voicing :: "int list \<Rightarrow> string \<Rightarrow> int \<Rightarrow> string \<Rightarrow> py_error + int list" where
  "get_chord_voicing scale_degrees chord_symbol octave voicing_type =
     (case piano_root_quality chord_symbol of
        Inl e \<Rightarrow> Inl e
      | Inr (root_degree, quality) \<Rightarrow>
         (case list_get scale_degrees root_degree of
            Inl e \<Rightarrow> Inl e
          | Inr d \<Rightarrow>
             (let root_note = d + (octave - 4) * 12
              in Inr (map (\<lambda>interval. root_note + interval)
                        (piano_intervals voicing_type quality)))))"

text \<open>\<open>JazzChords._chord_to_notes\<close>.\<close>

definition chords_intervals :: "string \<Rightarrow> int list" where
  "chords_intervals quality =
     (if quality = ''maj7'' then [0, 4, 7, 11]
      else if quality = ''7'' then [0, 4, 7, 10]
      else if quality = ''m7'' then [0, 3, 7, 10]
      else if quality = ''dim7'' then [0, 3, 6, 9]
      else [0, 4, 7])"

definition chord_to_notes :: "int list \<Rightarrow> string \<Rightarrow> int \<Rightarrow> py_error + int list" where
  "chord_to_notes scale_degrees chord_symbol octave =
     (case chords_root_quality chord_symbol of
        Inl e \<Rightarrow> Inl e
      | Inr (root_degree, quality) \<Rightarrow>
         (case list_get scale_degrees root_degree of
            Inl e \<Rightarrow> Inl e
          | Inr d \<Rightarrow>
             (let root_note = d + (octave - 4) * 12
              in Inr (map (\<lambda>interval. root_note + interval) (chords_intervals quality)))))"

text \<open>\<open>SmoothBass._chord_to_bass_notes\<close>: the root degree, then five fixed offsets.\<close>

definition bass_root_degree :: "string \<Rightarrow> py_error + nat" where
  "bass_root_degree chord_symbol =
     (if startswith chord_symbol ''ii'' \<or> startswith chord_symbol ''iii''
         \<or> startswith chord_symbol ''vi'' \<or> startswith chord_symbol ''vii''
      then dict_get degree_map (take 2 chord_symbol)
      else (case list_get chord_symbol 0 of
              Inl e \<Rightarrow> Inl e
            | Inr c \<Rightarrow> dict_get degree_map [c]))"

definition chord_to_bass_notes :: "int list \<Rightarrow> string \<Rightarrow> py_error + int list" where
  "chord_to_bass_notes scale_degrees chord_symbol =
     (case bass_root_degree chord_symbol of
        Inl e \<Rightarrow> Inl e
      | Inr root_degree \<Rightarrow>
         (case list_get scale_degrees root_degree of
            Inl e \<Rightarrow> Inl e
          | Inr root_note \<Rightarrow>
             Inr [root_note, root_note + 3, root_note + 7, root_note + 10, root_note + 12]))"

section \<open>The chord-progression catalog and \<open>get_progression\<close>\<close>

text \<open>
  \<open>JazzChords.progressions\<close> is a dictionary from section kinds to lists of templates; it is
  a field of the instance, so it is the state that \<open>get_progression\<close> reads and, through the
  alias \<open>progression\<close>, writes. It is modelled as an association list in the order of the
  dictionary literal.
\<close>

type_synonym catalog = "(string \<times> string list list) list"

definition progressions_init :: catalog where
  "progressions_init =
     [(''intro'',
        [[''Imaj7'', ''vi7'', ''ii7'', ''V7''],
         [''Imaj7'', ''IV7'', ''iii7'', ''vi7''],
         [''vi7'', ''ii7'', ''V7'', ''Imaj7'']]),
      (''verse_a'',
        [[''Imaj7'', ''vi7'', ''ii7'', ''V7'', ''iii7'', ''vi7'', ''ii7'', ''V7''],
         [''Imaj7'', ''I7'', ''IVmaj7'', ''iv7'', ''iii7'', ''vi7'', ''ii7'', ''V7''],
         [''vi7'', ''ii7'', ''V7'', ''Imaj7'', ''vi7'', ''ii7'', ''V7'', ''Imaj7'']]),
      (''verse_b'',
        [[''IVmaj7'', ''iv7'', ''iii7'', ''vi7'', ''ii7'', ''V7'', ''Imaj7'', ''V7''],
         [''Imaj7'', ''vi7'', ''IVmaj7'', ''IV7'', ''iii7'', ''vi7'', ''ii7'', ''V7''],
         [''vi7'', ''V7'', ''Imaj7'', ''vi7'', ''ii7'', ''V7'', ''Imaj7'', ''Imaj7'']]),
      (''chorus'',
        [[''Imaj7'', ''vi7'', ''ii7'', ''V7'', ''Imaj7'', ''vi7'', ''ii7'', ''V7''],
         [''IVmaj7'', ''V7'', ''iii7'', ''vi7'', ''ii7'', ''V7'', ''Imaj7'', ''V7''],
         [''vi7'', ''ii7'', ''V7'', ''Imaj7'', ''IVmaj7'', ''iii7'', ''ii7'', ''V7'']]),
      (''chorus_2'',
        [[''Imaj7'', ''I7'', ''IVmaj7'', ''iv7'', ''iii7'', ''VI7'', ''ii7'', ''V7''],
         [''vi7'', ''ii7'', ''V7'', ''Imaj7'', ''vi7'', ''ii7'', ''V7'', ''Imaj7''],
         [''IVmaj7'', ''V7'', ''vi7'', ''iii7'', ''ii7'', ''V7'', ''Imaj7'', ''V7'']]),
      (''outro'',
        [[''ii7'', ''V7'', ''Imaj7'', ''Imaj7''],
         [''vi7'', ''ii7'', ''V7'', ''Imaj7''],
         [''IVmaj7'', ''V7'', ''Imaj7'', ''Imaj7'']])]"

text \<open>
  The loop \<open>while len(progression) < bars: progression.extend(progression[:bars - len(progression)])\<close>.
  On an empty list with \<open>bars > 0\<close> it appends nothing for ever: not returning is \<open>None\<close>.
\<close>

partial_function (option) extend_progression :: "string list \<Rightarrow> int \<Rightarrow> string list option" where
  "extend_progression progression bars =
     (if int (length progression) < bars
      then extend_progression
             (progression @ py_take (bars - int (length progression)) progression) bars
      else Some progression)"

declare extend_progression.simps [code]

text \<open>
  \<open>JazzChords.get_progression\<close>. The default of \<open>dict.get\<close> is evaluated first. The chosen
  template is the list object stored in the catalog, and \<open>extend\<close> grows that object in
  place: the catalog returned holds the grown template at the place of the chosen one
  (under the kind that was looked up, \<open>verse_a\<close> for an unknown kind). The slice
  \<open>progression[:bars]\<close> is a new list. The result is the progression, the catalog after
  the call and the next position of the random source.
\<close>

definition get_progression ::
  "catalog \<Rightarrow> rng \<Rightarrow> nat \<Rightarrow> string \<Rightarrow> int \<Rightarrow> (py_error + (string list \<times> catalog \<times> nat)) option" where
  "get_progression progressions r p section_kind bars =
     (case map_of progressions ''verse_a'' of
        None \<Rightarrow> Some (Inl KeyError)
      | Some dflt \<Rightarrow>
         (let (kind, available_progressions) =
                (case map_of progressions section_kind of
                   None \<Rightarrow> (''verse_a'', dflt)
                 | Some av \<Rightarrow> (section_kind, av))
          in if available_progressions = [] then Some (Inl IndexError)
             else
               (let idx = r p mod length available_progressions
                in case extend_progression (available_progressions ! idx) bars of
                     None \<Rightarrow> None
                   | Some progression \<Rightarrow>
                       Some (Inr (py_take bars progression,
                                  map (\<lambda>(k, v). if k = kind
                                                  then (k, available_progressions[idx := progression])
                                                  else (k, v)) progressions,
                                  p + 1)))))"

section \<open>Piano comping and lead\<close>

definition comp_patterns :: "(string \<times> int list list) list" where
  "comp_patterns =
     [(''verse_a'',
        [[0, 0, 1, 0, 0, 0, 0, 0, 0, 0, 1, 0, 0, 0, 0, 0],
         [0, 0, 1, 0, 0, 0, 1, 0, 0, 0, 1, 0, 0, 0, 0, 0],
         [1, 0, 0, 0, 0, 0, 1, 0, 0, 0, 0, 0, 1, 0, 0, 0]]),
      (''verse_b'',
        [[0, 0, 1, 0, 0, 1, 0, 0, 0, 0, 1, 0, 0, 1, 0, 0],
         [0, 0, 0, 1, 0, 0, 1, 0, 0, 0, 0, 1, 0, 0, 1, 0],
         [1, 0, 0, 0, 0, 0, 0, 1, 0, 0, 1, 0, 0, 0, 0, 1]]),
      (''chorus'',
        [[0, 0, 1, 0, 0, 1, 1, 0, 0, 0, 1, 0, 0, 1, 0, 0],
         [1, 0, 0, 1, 0, 0, 1, 0, 1, 0, 0, 1, 0, 0, 1, 0],
         [0, 1, 1, 0, 0, 1, 0, 1, 0, 1, 1, 0, 0, 1, 0, 0]]),
      (''chorus_2'',
        [[0, 0, 1, 1, 0, 0, 1, 0, 0, 0, 1, 1, 0, 0, 1, 0],
         [1, 0, 0, 0, 1, 0, 1, 0, 1, 0, 0, 0, 1, 0, 1, 0]]),
      (''outro'',
        [[0, 0, 1, 0, 0, 0, 0, 0, 0, 0, 1, 0, 0, 0, 0, 0],
         [1, 0, 0, 0, 0, 0, 0, 0, 1, 0, 0, 0, 0, 0, 0, 0]])]"

definition lead_patterns :: "(string \<times> rat list) list" where
  "lead_patterns =
     [(''scalar'', [0, 1, 2, 3, 2, 1, 0, -1]),
      (''arpeggiated'', [0, 2, 4, 6, 4, 2, 0]),
      (''bluesy'', [0, 2, 3, 2, 0, -1, 0]),
      (''chromatic'', [0, 1/2, 1, 3/2, 2, 3/2, 1, 1/2])]"

text \<open>Python's \<open>int(x)\<close> on a float truncates towards zero.\<close>

definition py_int :: "rat \<Rightarrow> int" where
  "py_int x = (if 0 \<le> x then \<lfloor>x\<rfloor> else \<lceil>x\<rceil>)"

text \<open>\<open>d.get(k, d[k0])\<close>: the default is looked up first, whatever \<open>k\<close> is.\<close>

definition dict_get_or :: "('k \<times> 'v) list \<Rightarrow> 'k \<Rightarrow> 'k \<Rightarrow> py_error + 'v" where
  "dict_get_or d k k0 =
     (case dict_get d k0 of
        Inl e \<Rightarrow> Inl e
      | Inr dflt \<Rightarrow> Inr (case map_of d k of None \<Rightarrow> dflt | Some v \<Rightarrow> v))"

text \<open>
  \<open>JazzPiano.generate_comping\<close>. The kind of pattern is read off the length of the
  progression, once for the call.
\<close>

definition comping_section :: "nat \<Rightarrow> string" where
  "comping_section n =
     (if n \<le> 4 then ''intro'' else if n \<le> 8 then ''verse_a'' else ''chorus'')"

text \<open>The loop over \<open>enumerate(rhythm_pattern)\<close> for one chord.\<close>

fun comping_steps ::
  "rounding \<Rightarrow> rng \<Rightarrow> nat \<Rightarrow> int list \<Rightarrow> rat \<Rightarrow> rat \<Rightarrow> (nat \<times> int) list
     \<Rightarrow> midi_note list \<times> nat" where
  "comping_steps fl r p voicing current_time sixteenth_duration [] = ([], p)"
| "comping_steps fl r p voicing current_time sixteenth_duration ((step, hit) # rest) =
     (if hit \<noteq> 0 \<and> step < 4 then
        (let note_start = fl (current_time + fl (of_nat step * sixteenth_duration));
             note_end = fl (note_start + fl (sixteenth_duration * 2));
             timing_variation = random_uniform fl r p (- fl (1 / 100)) (fl (1 / 100));
             velocity_variation = random_randint r (p + 1) (- 10) 10;
             new = map (\<lambda>note_pitch.
                          \<lparr>velocity = max 40 (min 80 (65 + velocity_variation)),
                           pitch = note_pitch,
                           start = fl (note_start + timing_variation),
                           finish = note_end\<rparr>) voicing;
             (later, p') = comping_steps fl r (p + 2) voicing current_time sixteenth_duration
                             rest
         in (new @ later, p'))
      else comping_steps fl r p voicing current_time sixteenth_duration rest)"

text \<open>The loop over the chords, with its \<open>break\<close>.\<close>

fun comping_chords ::
  "rounding \<Rightarrow> int list \<Rightarrow> rng \<Rightarrow> int list \<Rightarrow> rat \<Rightarrow> rat \<Rightarrow> rat \<Rightarrow> rat \<Rightarrow> nat \<Rightarrow> rat
     \<Rightarrow> string list \<Rightarrow> py_error + (midi_note list \<times> nat)" where
  "comping_chords fl scale_degrees r rhythm_pattern start_time duration chord_duration
       sixteenth_duration p current_time [] = Inr ([], p)"
| "comping_chords fl scale_degrees r rhythm_pattern start_time duration chord_duration
       sixteenth_duration p current_time (chord # rest) =
     (if current_time \<ge> fl (start_time + duration) then Inr ([], p)
      else
        (case get_chord_voicing scale_degrees chord 4 ''rootless'' of
           Inl e \<Rightarrow> Inl e
         | Inr voicing \<Rightarrow>
            (let (new, p') = comping_steps fl r p voicing current_time sixteenth_duration
                               (enumerate 0 rhythm_pattern)
             in case comping_chords fl scale_degrees r rhythm_pattern start_time duration
                       chord_duration sixteenth_duration p'
                       (fl (current_time + chord_duration)) rest of
                  Inl e \<Rightarrow> Inl e
                | Inr (later, p'') \<Rightarrow> Inr (new @ later, p''))))"

definition generate_comping ::
  "rounding \<Rightarrow> int list \<Rightarrow> rng \<Rightarrow> nat \<Rightarrow> string list \<Rightarrow> rat \<Rightarrow> rat
     \<Rightarrow> py_error + (instrument \<times> nat)" where
  "generate_comping fl scale_degrees r p chord_progression start_time duration =
     (let section_kind = comping_section (length chord_progression)
      in case dict_get_or comp_patterns section_kind ''verse_a'' of
           Inl e \<Rightarrow> Inl e
         | Inr available_patterns \<Rightarrow>
            (case random_choice r p available_patterns of
               Inl e \<Rightarrow> Inl e
             | Inr rhythm_pattern \<Rightarrow>
                (if chord_progression = [] then Inl ZeroDivisionError
                 else
                   (let chord_duration = fl (duration / of_nat (length chord_progression));
                        sixteenth_duration = fl (chord_duration / 4)
                    in case comping_chords fl scale_degrees r rhythm_pattern start_time
                              duration chord_duration sixteenth_duration (p + 1) start_time
                              chord_progression of
                         Inl e \<Rightarrow> Inl e
                       | Inr (ns, p') \<Rightarrow>
                           Inr (\<lparr>program = 0, is_drum = False, inst_notes = ns\<rparr>, p')))))"

text \<open>
  \<open>JazzPiano.generate_lead\<close>. \<open>melody_notes\<close> are the first four entries of the pattern
  (their doubles are exact); the loop over them stops at the first onset at or after the
  end of the section.
\<close>

definition melody_notes :: "string \<Rightarrow> rat list \<Rightarrow> int \<Rightarrow> int list" where
  "melody_notes pattern_type pattern root_note =
     map (\<lambda>interval. if pattern_type = ''chromatic'' then root_note + py_int (interval * 2)
                      else root_note + py_int interval * 2) (take 4 pattern)"

fun lead_notes ::
  "rounding \<Rightarrow> rng \<Rightarrow> nat \<Rightarrow> rat \<Rightarrow> rat \<Rightarrow> rat \<Rightarrow> (nat \<times> int) list
     \<Rightarrow> midi_note list \<times> nat" where
  "lead_notes fl r p bound current_time eighth_duration [] = ([], p)"
| "lead_notes fl r p bound current_time eighth_duration ((i, note_pitch) # rest) =
     (let note_start = fl (current_time + fl (of_nat i * eighth_duration));
          note_end = fl (note_start + fl (eighth_duration * fl (8 / 10)))
      in if note_start \<ge> bound then ([], p)
         else
           (let vel = random_randint r p 80 100;
                timing_variation = random_uniform fl r (p + 1) (- fl (5 / 1000)) (fl (5 / 1000));
                (later, p') = lead_notes fl r (p + 2) bound current_time eighth_duration rest
            in (\<lparr>velocity = vel, pitch = note_pitch,
                  start = fl (note_start + timing_variation), finish = note_end\<rparr> # later, p')))"

fun lead_chords ::
  "rounding \<Rightarrow> int list \<Rightarrow> rng \<Rightarrow> rat \<Rightarrow> rat \<Rightarrow> rat \<Rightarrow> rat \<Rightarrow> nat \<Rightarrow> rat \<Rightarrow> string list
     \<Rightarrow> py_error + (midi_note list \<times> nat)" where
  "lead_chords fl scale_degrees r start_time duration chord_duration eighth_duration
       p current_time [] = Inr ([], p)"
| "lead_chords fl scale_degrees r start_time duration chord_duration eighth_duration
       p current_time (chord # rest) =
     (if current_time \<ge> fl (start_time + duration) then Inr ([], p)
      else
        (case random_choice r p (map fst lead_patterns) of
           Inl e \<Rightarrow> Inl e
         | Inr pattern_type \<Rightarrow>
            (case dict_get lead_patterns pattern_type of
               Inl e \<Rightarrow> Inl e
             | Inr pattern \<Rightarrow>
                (case get_chord_voicing scale_degrees chord 5 ''block'' of
                   Inl e \<Rightarrow> Inl e
                 | Inr chord_tones \<Rightarrow>
                    (case list_get chord_tones 0 of
                       Inl e \<Rightarrow> Inl e
                     | Inr root_note \<Rightarrow>
                        (let (new, p') =
                               lead_notes fl r (p + 1) (fl (start_time + duration)) current_time
                                 eighth_duration
                                 (enumerate 0 (melody_notes pattern_type pattern root_note))
                         in case lead_chords fl scale_degrees r start_time duration
                                   chord_duration eighth_duration p'
                                   (fl (current_time + chord_duration)) rest of
                              Inl e \<Rightarrow> Inl e
                            | Inr (later, p'') \<Rightarrow> Inr (new @ later, p'')))))))"

definition generate_lead ::
  "rounding \<Rightarrow> int list \<Rightarrow> rng \<Rightarrow> nat \<Rightarrow> string list \<Rightarrow> rat \<Rightarrow> rat
     \<Rightarrow> py_error + (instrument \<times> nat)" where
  "generate_lead fl scale_degrees r p chord_progression start_time duration =
     (if chord_progression = [] then Inl ZeroDivisionError
      else
        (let chord_duration = fl (duration / of_nat (length chord_progression));
             eighth_duration = fl (chord_duration / 2)
         in case lead_chords fl scale_degrees r start_time duration chord_duration
                   eighth_duration p start_time chord_progression of
              Inl e \<Rightarrow> Inl e
            | Inr (ns, p') \<Rightarrow> Inr (\<lparr>program = 0, is_drum = False, inst_notes = ns\<rparr>, p')))"

section \<open>Bass lines\<close>

definition rhythmic_patterns :: "(string \<times> int list list) list" where
  "rhythmic_patterns =
     [(''verse_a'',
        [[1, 0, 0, 0, 1, 0, 1, 0, 1, 0, 0, 0, 0, 0, 1, 0],
         [1, 0, 0, 1, 0, 0, 1, 0, 1, 0, 0, 0, 1, 0, 0, 0],
         [1, 0, 1, 0, 0, 0, 1, 0, 1, 0, 0, 1, 0, 0, 0, 0]]),
      (''verse_b'',
        [[1, 0, 0, 0, 0, 1, 1, 0, 1, 0, 0, 0, 1, 0, 1, 0],
         [1, 0, 1, 0, 1, 0, 0, 0, 1, 0, 0, 1, 0, 0, 1, 0],
         [1, 0, 0, 1, 0, 0, 1, 0, 0, 1, 0, 0, 1, 0, 0, 0]]),
      (''chorus'',
        [[1, 0, 0, 0, 1, 0, 1, 0, 1, 0, 1, 0, 1, 0, 0, 0],
         [1, 0, 1, 0, 0, 1, 1, 0, 1, 0, 0, 1, 0, 1, 1, 0],
         [1, 0, 0, 1, 0, 0, 1, 1, 1, 0, 0, 0, 1, 0, 1, 0]]),
      (''chorus_2'',
        [[1, 0, 0, 0, 1, 1, 0, 0, 1, 0, 1, 0, 0, 1, 0, 0],
         [1, 0, 1, 0, 1, 0, 1, 0, 1, 0, 0, 1, 1, 0, 0, 0]]),
      (''outro'',
        [[1, 0, 0, 0, 0, 0, 1, 0, 1, 0, 0, 0, 0, 0, 0, 0],
         [1, 0, 0, 0, 1, 0, 0, 0, 1, 0, 0, 0, 1, 0, 0, 0]])]"

definition melodic_patterns :: "(string \<times> rat list) list" where
  "melodic_patterns =
     [(''root_fifth'', [0, 4]),
      (''walking'', [0, 1, 2, 4]),
      (''chord_tones'', [0, 2, 4, 6]),
      (''chromatic'', [0, 1/2, 1, 3/2]),
      (''octave_jump'', [0, 7, 0, 4])]"

text \<open>
  The loop of \<open>_generate_bass_line_for_chord\<close> over the pattern: a pitch for a hit, \<open>None\<close>
  for a rest. Both indices are reduced modulo the length of the list they index.
\<close>

fun bass_line_steps ::
  "string \<Rightarrow> rat list \<Rightarrow> int list \<Rightarrow> int \<Rightarrow> nat \<Rightarrow> int list \<Rightarrow> int option list \<times> int" where
  "bass_line_steps movement_type movement_pattern available_notes current_note note_index [] =
     ([], current_note)"
| "bass_line_steps movement_type movement_pattern available_notes current_note note_index
       (hit # rest) =
     (if hit \<noteq> 0 then
        (let m = movement_pattern ! (note_index mod length movement_pattern);
             n = (if movement_type = ''chromatic'' then current_note + py_int m
                  else available_notes ! nat (py_int m mod int (length available_notes)));
             (later, final) = bass_line_steps movement_type movement_pattern available_notes
                                n (note_index + 1) rest
         in (Some n # later, final))
      else
        (let (later, final) = bass_line_steps movement_type movement_pattern available_notes
                                current_note note_index rest
         in (None # later, final)))"

definition generate_bass_line_for_chord ::
  "int list \<Rightarrow> rng \<Rightarrow> nat \<Rightarrow> string \<Rightarrow> int list \<Rightarrow> int option
     \<Rightarrow> py_error + (int option list \<times> int \<times> nat)" where
  "generate_bass_line_for_chord scale_degrees r p chord_symbol pattern start_note =
     (case chord_to_bass_notes scale_degrees chord_symbol of
        Inl e \<Rightarrow> Inl e
      | Inr available_notes \<Rightarrow>
         (case (case start_note of None \<Rightarrow> list_get available_notes 0 | Some n \<Rightarrow> Inr n) of
            Inl e \<Rightarrow> Inl e
          | Inr start_note' \<Rightarrow>
             (case random_choice r p (map fst melodic_patterns) of
                Inl e \<Rightarrow> Inl e
              | Inr movement_type \<Rightarrow>
                 (case dict_get melodic_patterns movement_type of
                    Inl e \<Rightarrow> Inl e
                  | Inr movement_pattern \<Rightarrow>
                     (let (bass_notes, current_note) =
                            bass_line_steps movement_type movement_pattern available_notes
                              start_note' 0 pattern
                      in Inr (bass_notes, current_note, p + 1))))))"

text \<open>
  \<open>SmoothBass.generate_line\<close>. The kind of rhythm for a chord depends on where its index
  lies in the progression; the function has no section parameter. The index is compared
  with the float products \<open>len(chord_progression) * 0.3\<close> and \<open>len(chord_progression) * 0.7\<close>.
\<close>

definition bass_section :: "rounding \<Rightarrow> nat \<Rightarrow> nat \<Rightarrow> string" where
  "bass_section fl chord_idx n =
     (if of_nat chord_idx < fl (of_nat n * fl (3 / 10)) then ''verse_a''
      else if of_nat chord_idx < fl (of_nat n * fl (7 / 10)) then ''chorus''
      else ''verse_b'')"

fun bass_midi_notes ::
  "rounding \<Rightarrow> rng \<Rightarrow> nat \<Rightarrow> rat \<Rightarrow> rat \<Rightarrow> (nat \<times> int option) list
     \<Rightarrow> midi_note list \<times> nat" where
  "bass_midi_notes fl r p current_time sixteenth_duration [] = ([], p)"
| "bass_midi_notes fl r p current_time sixteenth_duration ((step, None) # rest) =
     bass_midi_notes fl r p current_time sixteenth_duration rest"
| "bass_midi_notes fl r p current_time sixteenth_duration ((step, Some n) # rest) =
     (let note_start = fl (current_time + fl (of_nat step * sixteenth_duration));
          note_end = fl (note_start + fl (sixteenth_duration * fl (8 / 10)));
          vel = random_randint r p 75 95;
          timing_variation = random_uniform fl r (p + 1) (- fl (5 / 1000)) (fl (5 / 1000));
          (later, p') = bass_midi_notes fl r (p + 2) current_time sixteenth_duration rest
      in (\<lparr>velocity = vel, pitch = n, start = fl (note_start + timing_variation),
            finish = note_end\<rparr> # later, p'))"

fun bass_chords ::
  "rounding \<Rightarrow> int list \<Rightarrow> rng \<Rightarrow> nat \<Rightarrow> rat \<Rightarrow> rat \<Rightarrow> rat \<Rightarrow> rat \<Rightarrow> nat \<Rightarrow> rat
     \<Rightarrow> int option \<Rightarrow> (nat \<times> string) list \<Rightarrow> py_error + (midi_note list \<times> nat)" where
  "bass_chords fl scale_degrees r n start_time duration chord_duration sixteenth_duration
       p current_time last_note [] = Inr ([], p)"
| "bass_chords fl scale_degrees r n start_time duration chord_duration sixteenth_duration
       p current_time last_note ((chord_idx, chord) # rest) =
     (if current_time \<ge> fl (start_time + duration) then Inr ([], p)
      else
        (case dict_get_or rhythmic_patterns (bass_section fl chord_idx n) ''verse_a'' of
           Inl e \<Rightarrow> Inl e
         | Inr available_patterns \<Rightarrow>
            (case random_choice r p available_patterns of
               Inl e \<Rightarrow> Inl e
             | Inr rhythm_pattern \<Rightarrow>
                (case generate_bass_line_for_chord scale_degrees r (p + 1) chord rhythm_pattern
                        last_note of
                   Inl e \<Rightarrow> Inl e
                 | Inr (bass_notes, last_note', p') \<Rightarrow>
                    (let (new, p'') = bass_midi_notes fl r p' current_time sixteenth_duration
                                        (enumerate 0 bass_notes)
                     in case bass_chords fl scale_degrees r n start_time duration chord_duration
                               sixteenth_duration p'' (fl (current_time + chord_duration))
                               (Some last_note') rest of
                          Inl e \<Rightarrow> Inl e
                        | Inr (later, p3) \<Rightarrow> Inr (new @ later, p3))))))"

definition generate_line ::
  "rounding \<Rightarrow> int list \<Rightarrow> int \<Rightarrow> rng \<Rightarrow> nat \<Rightarrow> string list \<Rightarrow> rat \<Rightarrow> rat
     \<Rightarrow> py_error + (instrument \<times> nat)" where
  "generate_line fl scale_degrees tempo r p chord_progression start_time duration =
     (if tempo = 0 then Inl ZeroDivisionError
      else
        (let chords_per_bar = (if length chord_progression > 8 then 4 else 2 :: rat);
             chord_duration = fl (fl (60 / of_int tempo) * (4 / chords_per_bar));
             sixteenth_duration = fl (chord_duration / 4)
         in case bass_chords fl scale_degrees r (length chord_progression) start_time duration
                   chord_duration sixteenth_duration p start_time None
                   (enumerate 0 chord_progression) of
              Inl e \<Rightarrow> Inl e
            | Inr (ns, p') \<Rightarrow> Inr (\<lparr>program = 33, is_drum = False, inst_notes = ns\<rparr>, p')))"

section \<open>Drums\<close>

type_synonym pattern_set = "(string \<times> int list) list"

definition drum_map :: "(string \<times> int) list" where
  "drum_map =
     [(''kick'', 36), (''snare'', 38), (''hihat_closed'', 42), (''hihat_open'', 46),
      (''crash'', 49), (''ride'', 51), (''rim'', 37), (''tom_low'', 41), (''tom_mid'', 47),
      (''tom_high'', 50)]"

definition base_velocities :: "(string \<times> int) list" where
  "base_velocities =
     [(''kick'', 100), (''snare'', 95), (''hihat_closed'', 70), (''hihat_open'', 80),
      (''crash'', 110), (''ride'', 75), (''rim'', 60)]"

definition drum_patterns :: "(string \<times> pattern_set) list" where
  "drum_patterns =
     [(''verse_a'',
        [(''kick'', [1, 0, 0, 0, 0, 0, 1, 0, 1, 0, 0, 0, 0, 0, 0, 0]),
         (''snare'', [0, 0, 0, 0, 1, 0, 0, 0, 0, 0, 0, 0, 1, 0, 0, 0]),
         (''hihat_closed'', [1, 0, 1, 0, 1, 0, 1, 0, 1, 0, 1, 0, 1, 0, 1, 0]),
         (''hihat_open'', [0, 0, 0, 1, 0, 0, 0, 1, 0, 0, 0, 1, 0, 0, 0, 1])]),
      (''verse_b'',
        [(''kick'', [1, 0, 0, 1, 0, 0, 1, 0, 1, 0, 0, 0, 0, 0, 1, 0]),
         (''snare'', [0, 0, 0, 0, 1, 0, 0, 0, 0, 0, 1, 0, 1, 0, 0, 0]),
         (''hihat_closed'', [1, 0, 1, 0, 0, 1, 1, 0, 1, 0, 0, 1, 0, 1, 1, 0]),
         (''rim'', [0, 0, 0, 0, 0, 0, 0, 1, 0, 0, 0, 0, 0, 0, 0, 1])]),
      (''chorus'',
        [(''kick'', [1, 0, 0, 0, 1, 0, 1, 0, 1, 0, 0, 1, 0, 0, 1, 0]),
         (''snare'', [0, 0, 0, 0, 1, 0, 0, 0, 0, 0, 0, 0, 1, 0, 0, 0]),
         (''hihat_closed'', [1, 1, 0, 1, 0, 1, 1, 1, 1, 1, 0, 1, 0, 1, 1, 1]),
         (''crash'', [1, 0, 0, 0, 0, 0, 0, 0, 0, 0, 0, 0, 0, 0, 0, 0])]),
      (''chorus_2'',
        [(''kick'', [1, 0, 0, 1, 0, 0, 1, 0, 1, 0, 1, 0, 0, 0, 1, 0]),
         (''snare'', [0, 0, 1, 0, 1, 0, 0, 1, 0, 0, 0, 0, 1, 0, 0, 1]),
         (''hihat_closed'', [0, 1, 0, 1, 0, 1, 0, 1, 0, 1, 0, 1, 0, 1, 0, 1]),
         (''hihat_open'', [1, 0, 0, 0, 0, 0, 1, 0, 1, 0, 0, 0, 0, 0, 1, 0])]),
      (''outro'',
        [(''kick'', [1, 0, 0, 0, 0, 0, 0, 0, 1, 0, 0, 0, 0, 0, 0, 0]),
         (''snare'', [0, 0, 0, 0, 1, 0, 0, 0, 0, 0, 0, 0, 1, 0, 0, 0]),
         (''hihat_closed'', [1, 0, 0, 1, 0, 0, 1, 0, 1, 0, 0, 1, 0, 0, 1, 0]),
         (''ride'', [1, 0, 1, 0, 1, 0, 1, 0, 1, 0, 1, 0, 1, 0, 1, 0])])]"

text \<open>\<open>HipHopDrums._add_humanization\<close>: two draws, the time clamped at zero.\<close>

definition add_humanization :: "rounding \<Rightarrow> rng \<Rightarrow> nat \<Rightarrow> rat \<Rightarrow> int \<Rightarrow> rat \<times> int" where
  "add_humanization fl r p timing vel =
     (let timing_variation = random_uniform fl r p (- fl (1 / 100)) (fl (1 / 100));
          velocity_variation = random_randint r (p + 1) (- 15) 15
      in (max 0 (fl (timing + timing_variation)), max 1 (min 127 (vel + velocity_variation))))"

text \<open>
  \<open>HipHopDrums._add_pattern_variation\<close>: a new pattern set; entry \<open>i\<close> of a new pattern
  depends on entry \<open>i\<close> of the old one, and the second draw is made only when the first
  test failed and the entry is 1.
\<close>

fun vary_pattern :: "rounding \<Rightarrow> rng \<Rightarrow> nat \<Rightarrow> string \<Rightarrow> int list \<Rightarrow> int list \<times> nat" where
  "vary_pattern fl r p drum_name [] = ([], p)"
| "vary_pattern fl r p drum_name (x # xs) =
     (if random_unit r p < fl (5 / 100) then
        (if x = 0 \<and> (drum_name = ''hihat_closed'' \<or> drum_name = ''rim'') then
           (let (ys, p') = vary_pattern fl r (p + 1) drum_name xs in (1 # ys, p'))
         else if x = 1 then
           (if random_unit r (p + 1) < fl (3 / 10) then
              (let (ys, p') = vary_pattern fl r (p + 2) drum_name xs in (0 # ys, p'))
            else
              (let (ys, p') = vary_pattern fl r (p + 2) drum_name xs in (x # ys, p')))
         else (let (ys, p') = vary_pattern fl r (p + 1) drum_name xs in (x # ys, p')))
      else (let (ys, p') = vary_pattern fl r (p + 1) drum_name xs in (x # ys, p')))"

fun add_pattern_variation ::
  "rounding \<Rightarrow> rng \<Rightarrow> nat \<Rightarrow> pattern_set \<Rightarrow> pattern_set \<times> nat" where
  "add_pattern_variation fl r p [] = ([], p)"
| "add_pattern_variation fl r p ((drum_name, pattern) # rest) =
     (let (new_pattern, p') = vary_pattern fl r p drum_name pattern;
          (varied, p'') = add_pattern_variation fl r p' rest
      in ((drum_name, new_pattern) # varied, p''))"

text \<open>\<open>HipHopDrums.generate_pattern\<close>: the drums of one step, the steps of one bar, the bars.\<close>

fun drum_hits ::
  "rounding \<Rightarrow> rng \<Rightarrow> nat \<Rightarrow> rat \<Rightarrow> rat \<Rightarrow> nat \<Rightarrow> pattern_set \<Rightarrow> midi_note list \<times> nat" where
  "drum_hits fl r p step_time sixteenth_duration step [] = ([], p)"
| "drum_hits fl r p step_time sixteenth_duration step ((drum_name, pattern) # rest) =
     (if step < length pattern \<and> pattern ! step > 0 then
        (let drum_note = (case map_of drum_map drum_name of None \<Rightarrow> 36 | Some v \<Rightarrow> v);
             base_velocity = (case map_of base_velocities drum_name of None \<Rightarrow> 80 | Some v \<Rightarrow> v);
             (note_time, vel) = add_humanization fl r p step_time base_velocity;
             (later, p') = drum_hits fl r (p + 2) step_time sixteenth_duration step rest
         in (\<lparr>velocity = vel, pitch = drum_note, start = note_time,
               finish = fl (note_time + fl (sixteenth_duration * fl (5 / 10)))\<rparr> # later, p'))
      else drum_hits fl r p step_time sixteenth_duration step rest)"

fun drum_steps ::
  "rounding \<Rightarrow> rng \<Rightarrow> nat \<Rightarrow> rat \<Rightarrow> rat \<Rightarrow> rat \<Rightarrow> pattern_set \<Rightarrow> nat list
     \<Rightarrow> midi_note list \<times> nat" where
  "drum_steps fl r p end_time current_time sixteenth_duration pattern_set [] = ([], p)"
| "drum_steps fl r p end_time current_time sixteenth_duration pattern_set (step # rest) =
     (let step_time = fl (current_time + fl (of_nat step * sixteenth_duration))
      in if step_time \<ge> end_time then ([], p)
         else
           (let (new, p') = drum_hits fl r p step_time sixteenth_duration step pattern_set;
                (later, p'') = drum_steps fl r p' end_time current_time sixteenth_duration
                                 pattern_set rest
            in (new @ later, p'')))"

text \<open>
  The \<open>while current_time < end_time\<close> loop. It does not end when adding the bar does not
  move \<open>current_time\<close> (a bar of no or negative length, or one that the rounding absorbs):
  not returning is \<open>None\<close>.
\<close>

partial_function (option) drum_bars ::
  "rounding \<Rightarrow> rng \<Rightarrow> rat \<Rightarrow> rat \<Rightarrow> rat \<Rightarrow> nat \<Rightarrow> pattern_set \<Rightarrow> rat \<Rightarrow> midi_note list
     \<Rightarrow> (midi_note list \<times> nat) option" where
  "drum_bars fl r end_time bar_duration sixteenth_duration p pattern_set current_time acc =
     (if current_time < end_time then
        (let (pattern_set', p') =
               (if random_unit r p < fl (2 / 10) then add_pattern_variation fl r (p + 1) pattern_set
                else (pattern_set, p + 1));
             (new, p'') = drum_steps fl r p' end_time current_time sixteenth_duration
                            pattern_set' [0..<16]
         in drum_bars fl r end_time bar_duration sixteenth_duration p'' pattern_set'
              (fl (current_time + bar_duration)) (acc @ new))
      else Some (acc, p))"

declare drum_bars.simps [code]

definition generate_pattern ::
  "rounding \<Rightarrow> int \<Rightarrow> rng \<Rightarrow> nat \<Rightarrow> rat \<Rightarrow> rat \<Rightarrow> string
     \<Rightarrow> (py_error + (instrument \<times> nat)) option" where
  "generate_pattern fl tempo r p start_time duration section_kind =
     (case dict_get_or drum_patterns section_kind ''verse_a'' of
        Inl e \<Rightarrow> Some (Inl e)
      | Inr pattern_set \<Rightarrow>
         (if tempo = 0 then Some (Inl ZeroDivisionError)
          else
            (let bar_duration = fl (fl (60 / of_int tempo) * 4);
                 sixteenth_duration = fl (bar_duration / 16)
             in case drum_bars fl r (fl (start_time + duration)) bar_duration
                       sixteenth_duration p pattern_set start_time [] of
                  None \<Rightarrow> None
                | Some (ns, p') \<Rightarrow>
                    Some (Inr (\<lparr>program = 0, is_drum = True, inst_notes = ns\<rparr>, p')))))"

section \<open>The track generator\<close>

text \<open>Python's \<open>sub in s\<close> on strings.\<close>

fun str_contains :: "string \<Rightarrow> string \<Rightarrow> bool" where
  "str_contains [] sub = (sub = [])"
| "str_contains (c # cs) sub = (startswith (c # cs) sub \<or> str_contains cs sub)"

definition track_structure :: "(string \<times> int) list" where
  "track_structure =
     [(''intro'', 8), (''verse_a'', 16), (''chorus'', 16), (''verse_b'', 16),
      (''chorus_2'', 16), (''outro'', 8)]"

text \<open>
  The body of the loop of \<open>JazzHipHopGenerator.generate_track\<close> after the progression is
  known: the instruments of one section, in the order they are appended. The lookups for
  the piano and the chords use the tonic C = 60, the bass C = 36.
\<close>

definition section_tracks ::
  "rounding \<Rightarrow> int \<Rightarrow> string \<Rightarrow> rng \<Rightarrow> nat \<Rightarrow> string \<Rightarrow> string list \<Rightarrow> rat \<Rightarrow> rat
     \<Rightarrow> (py_error + (instrument list \<times> nat)) option" where
  "section_tracks fl tempo key r p section_kind progression current_time section_length =
     (case (if section_kind \<noteq> ''intro''
            then (case generate_pattern fl tempo r p current_time section_length section_kind of
                    None \<Rightarrow> None
                  | Some (Inl e) \<Rightarrow> Some (Inl e)
                  | Some (Inr (drum_track, p')) \<Rightarrow> Some (Inr ([drum_track], p')))
            else Some (Inr ([], p))) of
        None \<Rightarrow> None
      | Some (Inl e) \<Rightarrow> Some (Inl e)
      | Some (Inr (drum_tracks, p1)) \<Rightarrow>
         (case generate_comping fl (get_scale_degrees 60 key) r p1 progression current_time
                 section_length of
            Inl e \<Rightarrow> Some (Inl e)
          | Inr (piano_track, p2) \<Rightarrow>
             (case generate_line fl (get_scale_degrees 36 key) tempo r p2 progression
                     current_time section_length of
                Inl e \<Rightarrow> Some (Inl e)
              | Inr (bass_track, p3) \<Rightarrow>
                 (if str_contains section_kind ''chorus'' then
                    (case generate_lead fl (get_scale_degrees 60 key) r p3 progression
                            current_time section_length of
                       Inl e \<Rightarrow> Some (Inl e)
                     | Inr (lead_piano, p4) \<Rightarrow>
                         Some (Inr (drum_tracks @ [piano_track, bass_track, lead_piano], p4)))
                  else Some (Inr (drum_tracks @ [piano_track, bass_track], p3))))))"

text \<open>
  The loop over the structure. The catalog of the \<open>JazzChords\<close> instance is threaded
  through the sections and returned with the result, since it outlives the call (also
  when a later step raises); \<open>None\<close> is a run that does not return.
\<close>

fun generate_sections ::
  "rounding \<Rightarrow> int \<Rightarrow> string \<Rightarrow> rng \<Rightarrow> catalog \<Rightarrow> nat \<Rightarrow> rat \<Rightarrow> (string \<times> int) list
     \<Rightarrow> ((py_error + instrument list) \<times> catalog) option" where
  "generate_sections fl tempo key r progressions p current_time [] =
     Some (Inr [], progressions)"
| "generate_sections fl tempo key r progressions p current_time ((section_kind, bars) # rest) =
     (if tempo = 0 then Some (Inl ZeroDivisionError, progressions)
      else
        (let section_length = fl (fl (of_int bars * fl (60 / of_int tempo)) * 4)
         in case get_progression progressions r p section_kind bars of
              None \<Rightarrow> None
            | Some (Inl e) \<Rightarrow> Some (Inl e, progressions)
            | Some (Inr (progression, progressions', p')) \<Rightarrow>
               (case section_tracks fl tempo key r p' section_kind progression current_time
                       section_length of
                  None \<Rightarrow> None
                | Some (Inl e) \<Rightarrow> Some (Inl e, progressions')
                | Some (Inr (tracks, p'')) \<Rightarrow>
                   (case generate_sections fl tempo key r progressions' p''
                           (fl (current_time + section_length)) rest of
                      None \<Rightarrow> None
                    | Some (Inl e, progressions'') \<Rightarrow> Some (Inl e, progressions'')
                    | Some (Inr later, progressions'') \<Rightarrow>
                        Some (Inr (tracks @ later), progressions'')))))"

definition generate_track ::
  "rounding \<Rightarrow> int \<Rightarrow> string \<Rightarrow> rng \<Rightarrow> catalog
     \<Rightarrow> ((py_error + instrument list) \<times> catalog) option" where
  "generate_track fl tempo key r progressions =
     generate_sections fl tempo key r progressions 0 0 track_structure"

section \<open>Swing\<close>










section \<open>The arrangement timeline\<close>






section \<open>Predicates used in the statements\<close>

text \<open>
  A list \<open>cur\<close> repeats the template \<open>t\<close>: entry \<open>i\<close> is entry \<open>i mod length t\<close> of \<open>t\<close>.
\<close>

definition periodic :: "'a list \<Rightarrow> 'a list \<Rightarrow> bool" where
  "periodic t cur = (\<forall>i<length cur. cur ! i = t ! (i mod length t))"

text \<open>
  A catalog in which \<open>get_progression\<close> can work: \<open>verse_a\<close> has an entry, no kind has an
  empty list of templates and no template is empty. The catalog of a new instance is such
  a catalog, and \<open>get_progression\<close> keeps it one.
\<close>

definition catalog_ok :: "catalog \<Rightarrow> bool" where
  "catalog_ok c = (map_of c ''verse_a'' \<noteq> None
                   \<and> (\<forall>(k, ts) \<in> set c. ts \<noteq> [] \<and> (\<forall>t \<in> set ts. t \<noteq> [])))"



section \<open>Chord symbols: what the slicing resolves\<close>

lemma starts_two:
  "(startswith s ''ii'' \<or> startswith s ''iii'' \<or> startswith s ''vi'' \<or> startswith s ''vii'')
     = (take 2 s = ''ii'' \<or> take 2 s = ''vi'')"
  unfolding startswith_def
  by (cases s; cases "tl s"; cases "tl (tl s)") auto

lemma length_get_scale_degrees: "length (get_scale_degrees base key) = 7"
  by (simp add: get_scale_degrees_def Let_def)

text \<open>
  C4. The claim: a symbol that begins \<open>iii\<close> resolves to degree 2 and one that begins
  \<open>vii\<close> to degree 6, each with the rest of the symbol as its quality. The code tests for
  the four lowercase numerals and then slices two characters whatever matched: for every
  suffix \<open>q\<close>, \<open>iii\<close> followed by \<open>q\<close> resolves to degree 1 (the entry of \<open>ii\<close>) with quality
  \<open>i\<close> followed by \<open>q\<close>, and \<open>vii\<close> followed by \<open>q\<close> to degree 5 (the entry of \<open>vi\<close>) with
  quality \<open>i\<close> followed by \<open>q\<close>, in the piano and in the chord resolver alike. No table
  knows the quality \<open>i7\<close>, so in C major \<open>iii7\<close> is voiced as the plain triad on D
  (62, 66, 69) and \<open>vii7\<close> as the plain triad on A (69, 73, 76).
\<close>

theorem numeral_slice_is_two_wide:
  "piano_root_quality (''iii'' @ q) = Inr (1, ''i'' @ q)
   \<and> piano_root_quality (''vii'' @ q) = Inr (5, ''i'' @ q)
   \<and> chords_root_quality (''iii'' @ q) = Inr (1, ''i'' @ q)
   \<and> chords_root_quality (''vii'' @ q) = Inr (5, ''i'' @ q)
   \<and> get_chord_voicing (get_scale_degrees 60 ''C'') ''iii7'' 4 ''block'' = Inr [62, 66, 69]
   \<and> chord_to_notes (get_scale_degrees 60 ''C'') ''vii7'' 4 = Inr [69, 73, 76]"
  by (simp add: piano_root_quality_def chords_root_quality_def startswith_def dict_get_def
      degree_map_def get_chord_voicing_def chord_to_notes_def get_scale_degrees_def key_roots_def
      list_get_def piano_intervals_def chords_intervals_def)

section \<open>The pitch pool of the bass\<close>

lemma bass_root_degree_less: "bass_root_degree chord = Inr d \<Longrightarrow> d < 7"
  unfolding bass_root_degree_def starts_two
  by (auto simp: dict_get_def degree_map_def list_get_def
      split: if_splits sum.splits option.splits)

lemma bass_root_degree_I_V:
  "bass_root_degree (CHR ''I'' # q) = Inr 0" "bass_root_degree (CHR ''V'' # q) = Inr 4"
  by (simp_all add: bass_root_degree_def startswith_def dict_get_def degree_map_def list_get_def)

text \<open>
  C10. Whenever the bass resolves a chord symbol (in any key), its candidate pitches are
  the root of the resolved degree plus 0, 3, 7, 10 and 12 semitones, in this order; the
  quality suffix is not read: every symbol \<open>I\<close> followed by \<open>q\<close> (so \<open>Imaj7\<close>) gets the
  pool on degree 0 and every symbol \<open>V\<close> followed by \<open>q\<close> (so \<open>V7\<close>) the pool on degree 4,
  minor third and minor seventh included.
\<close>

theorem bass_pitch_pool:
  "(chord_to_bass_notes (get_scale_degrees 36 key) chord = Inr ns \<longrightarrow>
      (\<exists>d<7. bass_root_degree chord = Inr d
           \<and> ns = map (\<lambda>off. get_scale_degrees 36 key ! d + off) [0, 3, 7, 10, 12]))
   \<and> chord_to_bass_notes (get_scale_degrees 36 key) (''I'' @ q)
       = Inr (map (\<lambda>off. get_scale_degrees 36 key ! 0 + off) [0, 3, 7, 10, 12])
   \<and> chord_to_bass_notes (get_scale_degrees 36 key) (''V'' @ q)
       = Inr (map (\<lambda>off. get_scale_degrees 36 key ! 4 + off) [0, 3, 7, 10, 12])"
proof (intro conjI impI)
  assume a: "chord_to_bass_notes (get_scale_degrees 36 key) chord = Inr ns"
  then obtain d where d: "bass_root_degree chord = Inr d"
    by (auto simp: chord_to_bass_notes_def split: sum.splits)
  have "d < 7" using d by (rule bass_root_degree_less)
  with a d show "\<exists>d<7. bass_root_degree chord = Inr d
           \<and> ns = map (\<lambda>off. get_scale_degrees 36 key ! d + off) [0, 3, 7, 10, 12]"
    by (auto simp: chord_to_bass_notes_def list_get_def length_get_scale_degrees)
next
  show "chord_to_bass_notes (get_scale_degrees 36 key) (''I'' @ q)
       = Inr (map (\<lambda>off. get_scale_degrees 36 key ! 0 + off) [0, 3, 7, 10, 12])"
    by (simp add: chord_to_bass_notes_def bass_root_degree_I_V list_get_def
        length_get_scale_degrees)
next
  show "chord_to_bass_notes (get_scale_degrees 36 key) (''V'' @ q)
       = Inr (map (\<lambda>off. get_scale_degrees 36 key ! 4 + off) [0, 3, 7, 10, 12])"
    by (simp add: chord_to_bass_notes_def bass_root_degree_I_V list_get_def
        length_get_scale_degrees)
qed

theorem bass_pitch_pool_witness:
  "chord_to_bass_notes (get_scale_degrees 36 ''C'') ''V7'' = Inr [43, 46, 50, 53, 55]
   \<and> (\<exists>d<7. bass_root_degree ''V7'' = Inr d
          \<and> [43, 46, 50, 53, 55] = map (\<lambda>off. get_scale_degrees 36 ''C'' ! d + off) [0, 3, 7, 10, 12])"
proof -
  have h: "chord_to_bass_notes (get_scale_degrees 36 ''C'') ''V7'' = Inr [43, 46, 50, 53, 55]"
    by (simp add: chord_to_bass_notes_def bass_root_degree_def startswith_def dict_get_def
        degree_map_def list_get_def get_scale_degrees_def key_roots_def)
  from bass_pitch_pool [of "''C''" "''V7''" "[43, 46, 50, 53, 55]" "[]"] h
  show ?thesis by blast
qed

section \<open>Progression sizing\<close>

lemma periodic_step:
  assumes t: "t \<noteq> []" and per: "periodic t cur" and dv: "length t dvd length cur"
  shows "periodic t (cur @ take k cur)"
  unfolding periodic_def
proof (intro allI impI)
  fix i assume i: "i < length (cur @ take k cur)"
  show "(cur @ take k cur) ! i = t ! (i mod length t)"
  proof (cases "i < length cur")
    case True
    then show ?thesis using per by (simp add: nth_append periodic_def)
  next
    case False
    then have j: "i - length cur < min (length cur) k"
      using i by (simp add: min_def split: if_splits)
    have "(cur @ take k cur) ! i = cur ! (i - length cur)"
      using False j by (simp add: nth_append)
    also have "\<dots> = t ! ((i - length cur) mod length t)"
      using per j by (simp add: periodic_def)
    also have "(i - length cur) mod length t = i mod length t"
    proof -
      obtain c where c: "length cur = length t * c" using dv by (auto simp: dvd_def)
      have "i = (i - length cur) + length t * c" using False c by simp
      then have "i mod length t = ((i - length cur) + length t * c) mod length t" by simp
      then show ?thesis by simp
    qed
    finally show ?thesis .
  qed
qed

lemma extend_progression_periodic:
  assumes t: "t \<noteq> []"
  shows "periodic t cur \<Longrightarrow> length t dvd length cur \<Longrightarrow> cur \<noteq> [] \<Longrightarrow>
         \<exists>ext. extend_progression cur bars = Some ext \<and> periodic t ext
               \<and> bars \<le> int (length ext) \<and> length cur \<le> length ext"
proof (induction "nat (bars - int (length cur))" arbitrary: cur rule: less_induct)
  case less
  show ?case
  proof (cases "int (length cur) < bars")
    case False
    then show ?thesis using less.prems by (subst extend_progression.simps) simp
  next
    case True
    let ?k = "nat (bars - int (length cur))"
    let ?next = "cur @ py_take (bars - int (length cur)) cur"
    have nx: "?next = cur @ take ?k cur" using True by (simp add: py_take_def)
    have per: "periodic t ?next" unfolding nx by (rule periodic_step[OF t less.prems(1,2)])
    have len: "length ?next = length cur + min (length cur) ?k" unfolding nx by simp
    have pos: "0 < length cur" using less.prems(3) by simp
    show ?thesis
    proof (cases "?k < length cur")
      case True
      then have "int (length ?next) = bars" using len \<open>int (length cur) < bars\<close> by simp
      then have "extend_progression ?next bars = Some ?next"
        by (subst extend_progression.simps) simp
      then have "extend_progression cur bars = Some ?next"
        using \<open>int (length cur) < bars\<close> by (subst extend_progression.simps) simp
      then show ?thesis using per \<open>int (length ?next) = bars\<close> by simp
    next
      case False
      then have l2: "length ?next = 2 * length cur" using len by simp
      then have dv: "length t dvd length ?next" using less.prems(2) by simp
      have ne: "?next \<noteq> []" using less.prems(3) by simp
      have dec: "nat (bars - int (length ?next)) < nat (bars - int (length cur))"
        using l2 pos True by linarith
      from less.hyps[OF dec per dv ne]
      obtain ext where e: "extend_progression ?next bars = Some ext" "periodic t ext"
        "bars \<le> int (length ext)" "length ?next \<le> length ext" by blast
      have "extend_progression cur bars = Some ext"
        using True e(1) by (subst extend_progression.simps) simp
      then show ?thesis using e l2 by simp
    qed
  qed
qed

lemma periodic_self: "periodic t t"
  by (simp add: periodic_def)

lemma periodic_take: "periodic t xs \<Longrightarrow> periodic t (take n xs)"
  by (simp add: periodic_def)

lemma extend_progression_result:
  assumes "t \<noteq> []"
  shows "\<exists>ext. extend_progression t bars = Some ext \<and> periodic t ext
               \<and> bars \<le> int (length ext) \<and> ext \<noteq> []
               \<and> (bars \<le> int (length t) \<longrightarrow> ext = t)"
proof -
  from extend_progression_periodic[OF assms periodic_self _ assms, of bars]
  obtain ext where e: "extend_progression t bars = Some ext" "periodic t ext"
    "bars \<le> int (length ext)" "length t \<le> length ext" by auto
  have "ext \<noteq> []" using e(4) assms by auto
  moreover have "bars \<le> int (length t) \<longrightarrow> ext = t"
    using e(1) by (subst (asm) extend_progression.simps) auto
  ultimately show ?thesis using e by blast
qed

lemma catalog_ok_init: "catalog_ok progressions_init"
  by (simp add: catalog_ok_def progressions_init_def)

lemma catalog_ok_update:
  assumes ok: "catalog_ok c" and ext: "ext \<noteq> []" and av: "map_of c kind = Some av"
  shows "catalog_ok (map (\<lambda>(k, v). if k = kind then (k, av[idx := ext]) else (k, v)) c)"
proof -
  let ?c' = "map (\<lambda>(k, v). if k = kind then (k, av[idx := ext]) else (k, v)) c"
  have avok: "av \<noteq> [] \<and> (\<forall>t \<in> set av. t \<noteq> [])"
    using ok map_of_SomeD[OF av] by (auto simp: catalog_ok_def)
  have dom: "map_of ?c' ''verse_a'' \<noteq> None"
  proof -
    have "fst ` set ?c' = fst ` set c" by (auto simp: image_iff split: if_splits) force+
    moreover have "''verse_a'' \<in> fst ` set c" using ok
      by (simp add: catalog_ok_def map_of_eq_None_iff)
    ultimately show ?thesis by (simp add: map_of_eq_None_iff)
  qed
  have upd: "av[idx := ext] \<noteq> [] \<and> (\<forall>t \<in> set (av[idx := ext]). t \<noteq> [])"
    using avok ext by (auto dest!: subsetD[OF set_update_subset_insert])
  have "\<forall>(k, ts) \<in> set ?c'. ts \<noteq> [] \<and> (\<forall>t \<in> set ts. t \<noteq> [])"
  proof (clarify)
    fix k ts assume "(k, ts) \<in> set ?c'"
    then obtain k0 v0 where kv: "(k0, v0) \<in> set c"
      "(k, ts) = (if k0 = kind then (k0, av[idx := ext]) else (k0, v0))" by auto
    show "ts \<noteq> [] \<and> (\<forall>t \<in> set ts. t \<noteq> [])"
    proof (cases "k0 = kind")
      case True
      then show ?thesis using kv(2) upd by simp
    next
      case False
      then have "ts = v0" using kv(2) by simp
      then show ?thesis using ok kv(1) by (auto simp: catalog_ok_def)
    qed
  qed
  with dom show ?thesis by (simp add: catalog_ok_def)
qed

text \<open>
  C5. On every catalog an instance can hold, for every section kind (a kind without an
  entry uses the templates of \<open>verse_a\<close>), every draw and every \<open>bars \<ge> 1\<close>,
  \<open>get_progression\<close> returns, without an error, exactly \<open>bars\<close> chord symbols: entry \<open>i\<close> of
  the result is entry \<open>i mod n\<close> of the selected template of length \<open>n\<close>, so a shorter
  template is repeated cyclically from its own start, and a template at least \<open>bars\<close> long
  is cut to its first \<open>bars\<close> entries. One draw is consumed.
\<close>

theorem get_progression_exact:
  assumes ok: "catalog_ok c" and bars: "1 \<le> bars"
  shows "\<exists>ts prog c'.
           (map_of c kind = Some ts \<or> (map_of c kind = None \<and> map_of c ''verse_a'' = Some ts))
         \<and> get_progression c r p kind bars = Some (Inr (prog, c', p + 1))
         \<and> length prog = nat bars
         \<and> periodic (ts ! (r p mod length ts)) prog
         \<and> (bars \<le> int (length (ts ! (r p mod length ts)))
               \<longrightarrow> prog = take (nat bars) (ts ! (r p mod length ts)))
         \<and> catalog_ok c'"
proof -
  obtain dflt where dflt: "map_of c ''verse_a'' = Some dflt"
    using ok by (auto simp: catalog_ok_def)
  define kd where "kd = (case map_of c kind of None \<Rightarrow> ''verse_a'' | Some av \<Rightarrow> kind)"
  define ts where "ts = (case map_of c kind of None \<Rightarrow> dflt | Some av \<Rightarrow> av)"
  have sel: "map_of c kind = Some ts \<or> (map_of c kind = None \<and> map_of c ''verse_a'' = Some ts)"
    using dflt by (auto simp: ts_def split: option.splits)
  have kdts: "map_of c kd = Some ts"
    using dflt by (auto simp: ts_def kd_def split: option.splits)
  have tsok: "ts \<noteq> [] \<and> (\<forall>t \<in> set ts. t \<noteq> [])"
    using ok map_of_SomeD[OF kdts] by (auto simp: catalog_ok_def)
  let ?idx = "r p mod length ts"
  let ?t = "ts ! ?idx"
  have "?idx < length ts" using tsok by simp
  then have tne: "?t \<noteq> []" using tsok by (meson nth_mem)
  from extend_progression_result[OF tne, of bars]
  obtain ext where e: "extend_progression ?t bars = Some ext" "periodic ?t ext"
    "bars \<le> int (length ext)" "ext \<noteq> []" "bars \<le> int (length ?t) \<longrightarrow> ext = ?t" by blast
  let ?c' = "map (\<lambda>(k, v). if k = kd then (k, ts[?idx := ext]) else (k, v)) c"
  have gp: "get_progression c r p kind bars = Some (Inr (py_take bars ext, ?c', p + 1))"
    using dflt tsok e(1)
    by (auto simp: get_progression_def ts_def kd_def Let_def split: option.splits)
  have pt: "py_take bars ext = take (nat bars) ext" using bars by (simp add: py_take_def)
  have len: "length (py_take bars ext) = nat bars" using e(3) bars unfolding pt by simp
  have per: "periodic ?t (py_take bars ext)" unfolding pt by (rule periodic_take[OF e(2)])
  have tr: "bars \<le> int (length ?t) \<longrightarrow> py_take bars ext = take (nat bars) ?t"
    using e(5) pt by auto
  have ok': "catalog_ok ?c'" by (rule catalog_ok_update[OF ok e(4) kdts])
  show ?thesis using sel gp len per tr ok' by blast
qed

theorem get_progression_exact_witness:
  "catalog_ok progressions_init \<and>
   (\<exists>ts prog c'.
       (map_of progressions_init ''intro'' = Some ts
          \<or> (map_of progressions_init ''intro'' = None \<and> map_of progressions_init ''verse_a'' = Some ts))
     \<and> get_progression progressions_init (\<lambda>_. 0) 0 ''intro'' 6 = Some (Inr (prog, c', 0 + 1))
     \<and> length prog = nat 6
     \<and> periodic (ts ! ((\<lambda>_. 0) (0::nat) mod length ts)) prog
     \<and> catalog_ok c')"
proof -
  have ok: "catalog_ok progressions_init"
    by (simp add: catalog_ok_def progressions_init_def)
  from get_progression_exact [OF ok, of 6 "''intro''" "\<lambda>_. 0" 0] ok
  show ?thesis by (simp (no_asm_use)) blast
qed

section \<open>The catalog after \<open>get_progression\<close>\<close>

text \<open>
  C9. The claim: the catalog stored on the instance is the same after every call. In the
  code the chosen template is the stored list itself and \<open>extend\<close> grows it in place: on a
  new instance, \<open>get_progression('intro', 8)\<close> with the first template chosen leaves that
  template eight chords long in the catalog, where it was four chords long before.
\<close>

theorem get_progression_grows_catalog:
  "(case get_progression progressions_init (\<lambda>_. 0) 0 ''intro'' 8 of
      Some (Inr (prog, progressions', p')) \<Rightarrow>
        map_of progressions' ''intro''
          = Some [[''Imaj7'', ''vi7'', ''ii7'', ''V7'', ''Imaj7'', ''vi7'', ''ii7'', ''V7''],
                  [''Imaj7'', ''IV7'', ''iii7'', ''vi7''],
                  [''vi7'', ''ii7'', ''V7'', ''Imaj7'']]
        \<and> map_of progressions_init ''intro''
          = Some [[''Imaj7'', ''vi7'', ''ii7'', ''V7''],
                  [''Imaj7'', ''IV7'', ''iii7'', ''vi7''],
                  [''vi7'', ''ii7'', ''V7'', ''Imaj7'']]
        \<and> progressions' \<noteq> progressions_init
    | _ \<Rightarrow> False)"
  by (simp add: get_progression_def progressions_init_def extend_progression.simps py_take_def)


section \<open>Evaluating the binary64 rounding\<close>









section \<open>The swing pass\<close>











section \<open>Unknown section kinds\<close>




end
